theory Spec2Isabelle
  imports Main
begin

section \<open>The grid world environment of simple\_grid\_world/envs/grid\_world.py\<close>

text \<open>
  The class \<open>GridWorldEnv\<close> is embedded as a record of its attributes and one function
  per method. Every method returns the object after the call together with its outcome,
  so that what an exception leaves behind is part of the model. The process-wide
  generator behind \<open>np.random\<close> is a state of its own, passed in and returned.
  Rendering (pygame) only reads the attributes modelled here and is left out.
\<close>

subsection \<open>Values\<close>

type_synonym pos = "int \<times> int"

text \<open>The exceptions the methods can raise; \<open>SeedError\<close> is gymnasium's error for a
  negative seed.\<close>

datatype error =
  ZeroDivisionError | OverflowError | ValueError | AssertionError | KeyError
  | AttributeError | TypeError | SeedError

text \<open>
  \<open>np.array(agent_location)\<close>: the zero-dimensional object array holding \<open>None\<close> when
  no position was given, the array of the two coordinates otherwise.
\<close>

datatype ndarray = NoneArr | Vec pos

text \<open>The argument \<open>target_location\<close>: an \<open>int\<close> (a count) or a list of positions.\<close>

datatype target_spec = Count int | Explicit "pos list"

text \<open>Arithmetic on \<open>int64\<close> arrays wraps around.\<close>

definition wrap64 :: "int \<Rightarrow> int" where
  "wrap64 x = (x + 2 ^ 63) mod 2 ^ 64 - 2 ^ 63"

subsection \<open>The process-wide generator\<close>

text \<open>
  The state of \<open>np.random\<close> is the sequence of raw values it is going to produce and the
  number of values consumed so far. \<open>np.random.randint(low=[0, 0], high=[row, col],
  size=2, dtype=int)\<close> raises \<open>ValueError\<close> unless \<open>low < high\<close> and \<open>high\<close> is within the
  bounds of \<open>int64\<close> (at most \<open>2 ^ 63\<close>, the bound being exclusive) in both coordinates,
  and otherwise consumes two raw values, one for each coordinate, which land in
  \<open>[0, row)\<close> and \<open>[0, col)\<close>. How numpy maps a raw value into the interval is not modelled: the model
  takes the remainder.
\<close>

record rng =
  raw :: "nat \<Rightarrow> nat"
  cursor :: nat

definition randint :: "int \<Rightarrow> int \<Rightarrow> rng \<Rightarrow> error + (pos \<times> rng)" where
  "randint r c g =
     (if r \<le> 0 \<or> c \<le> 0 \<or> 2 ^ 63 < r \<or> 2 ^ 63 < c then Inl ValueError
      else Inr ((int (raw g (cursor g)) mod r, int (raw g (cursor g + 1)) mod c),
                g\<lparr>cursor := cursor g + 2\<rparr>))"

subsection \<open>The object\<close>

text \<open>
  \<open>agent_location\<close> and \<open>target_location\<close> are attributes that only \<open>reset\<close> creates:
  \<open>None\<close> is the attribute that does not exist yet. \<open>np_random_seed\<close> is the seed of the
  generator owned by the environment (\<open>self.np_random\<close>), which no method draws from.
\<close>

record 'r env =
  row :: int
  col :: int
  init_agent :: ndarray
  init_target :: "pos list"
  term_reward :: 'r
  step_reward :: 'r
  render_mode :: "string option"
  np_random_seed :: "int option"
  agent_location :: "ndarray option"
  target_location :: "pos list option"

type_synonym obs = "ndarray \<times> pos list"
type_synonym info = "string \<rightharpoonup> string"

definition render_modes :: "string list" where
  "render_modes = [''human'', ''rgb_array'']"

definition action_to_direction :: "int \<rightharpoonup> pos" where
  "action_to_direction = [0 \<mapsto> (0, 1), 1 \<mapsto> (- 1, 0), 2 \<mapsto> (0, - 1), 3 \<mapsto> (1, 0)]"

subsection \<open>Array operations\<close>

text \<open>\<open>(a != b).any()\<close> on two coordinate pairs.\<close>

definition ne_any :: "pos \<Rightarrow> pos \<Rightarrow> bool" where
  "ne_any a b = (fst a \<noteq> fst b \<or> snd a \<noteq> snd b)"

text \<open>\<open>(self.init_agent != new).any()\<close>: \<open>None\<close> differs from every integer.\<close>

fun agent_ne_any :: "ndarray \<Rightarrow> pos \<Rightarrow> bool" where
  "agent_ne_any NoneArr new = True"
| "agent_ne_any (Vec a) new = ne_any a new"

text \<open>
  \<open>self.init_agent == None\<close> compares elementwise: one \<open>True\<close> for the array holding
  \<open>None\<close>, one \<open>False\<close> for each coordinate otherwise.
\<close>

fun eq_None :: "ndarray \<Rightarrow> bool list" where
  "eq_None NoneArr = [True]"
| "eq_None (Vec a) = [False, False]"

text \<open>The truth value of an array: that of its only element, \<open>ValueError\<close> when it has
  several (the condition of a conditional expression asks for it).\<close>

fun truth_value :: "bool list \<Rightarrow> error + bool" where
  "truth_value [b] = Inr b"
| "truth_value bs = Inl ValueError"

text \<open>\<open>self.agent_location + direction\<close>; \<open>None + int\<close> is a \<open>TypeError\<close>.\<close>

fun add_arr :: "ndarray \<Rightarrow> pos \<Rightarrow> error + pos" where
  "add_arr NoneArr d = Inl TypeError"
| "add_arr (Vec a) d = Inr (wrap64 (fst a + fst d), wrap64 (snd a + snd d))"

text \<open>\<open>np.clip(x, lo, hi)\<close> is \<open>minimum(maximum(x, lo), hi)\<close>, coordinate by coordinate.\<close>

definition clip :: "pos \<Rightarrow> pos \<Rightarrow> pos \<Rightarrow> pos" where
  "clip x lo hi = (min (max (fst x) (fst lo)) (fst hi), min (max (snd x) (snd lo)) (snd hi))"

definition array_equal :: "pos \<Rightarrow> pos \<Rightarrow> bool" where
  "array_equal a b = (fst a = fst b \<and> snd a = snd b)"

subsection \<open>Methods\<close>

definition get_obs :: "'r env \<Rightarrow> error + obs" where
  "get_obs e =
     (case agent_location e of
        None \<Rightarrow> Inl AttributeError
      | Some a \<Rightarrow>
          (case target_location e of
             None \<Rightarrow> Inl AttributeError
           | Some ts \<Rightarrow> Inr (a, ts)))"

definition get_info :: "'r env \<Rightarrow> info" where
  "get_info e = Map.empty"

text \<open>
  The loop of \<open>__init__\<close>, lines 21 to 25: rejection sampling, with no bound on the
  number of draws. \<open>None\<close> is the loop that never ends.
\<close>

partial_function (option) draw_targets ::
  "int \<Rightarrow> int \<Rightarrow> ndarray \<Rightarrow> int \<Rightarrow> pos list \<Rightarrow> rng \<Rightarrow> (error + (pos list \<times> rng)) option" where
  "draw_targets r c agent n target g =
     (if int (length target) < n
      then (case randint r c g of
              Inl err \<Rightarrow> Some (Inl err)
            | Inr (new, g') \<Rightarrow>
                if list_all (\<lambda>t. ne_any new t) target \<and> agent_ne_any agent new
                then draw_targets r c agent n (target @ [new]) g'
                else draw_targets r c agent n target g')
      else Some (Inr (target, g)))"

text \<open>
  Line 14, \<open>int(self.window_row_size * self.col / self.row)\<close>: the true division of two
  Python integers raises \<open>ZeroDivisionError\<close> for a zero divisor and \<open>OverflowError\<close> when
  the correctly rounded quotient is not a finite double, that is when its absolute value
  reaches \<open>2 ^ 1024 - 2 ^ 970\<close>, half way between the largest double and \<open>2 ^ 1024\<close>. The
  window size itself is read by the rendering only.
\<close>

definition float_overflow_bound :: int where
  "float_overflow_bound = 2 ^ 1024 - 2 ^ 970"

definition true_divide_error :: "int \<Rightarrow> int \<Rightarrow> error option" where
  "true_divide_error a b =
     (if b = 0 then Some ZeroDivisionError
      else if float_overflow_bound * \<bar>b\<bar> \<le> \<bar>a\<bar> then Some OverflowError
      else None)"

text \<open>
  Lines 35 to 40, \<open>spaces.Box(low=[0, 0], high=[row - 1, col - 1], dtype=int)\<close>: gymnasium
  raises \<open>ValueError\<close> when a lower bound is above its upper bound or a bound does not fit
  \<open>int64\<close>. The spaces are read by no method; only the error is modelled.
\<close>

definition box_error :: "int \<Rightarrow> int \<Rightarrow> error option" where
  "box_error r c =
     (if 0 \<le> r - 1 \<and> r - 1 < 2 ^ 63 \<and> 0 \<le> c - 1 \<and> c - 1 < 2 ^ 63 then None
      else Some ValueError)"

text \<open>
  \<open>__init__\<close>, lines 10 to 68, in the order of its statements: the window size (line 14),
  the targets, drawn or taken as given (lines 19 to 29), the observation space (lines 35
  to 40), the assertion on the render mode (line 57). Nothing compares a position with
  the grid.
\<close>

definition init ::
  "ndarray \<Rightarrow> target_spec \<Rightarrow> string option \<Rightarrow> int \<Rightarrow> int \<Rightarrow> 'r \<Rightarrow> 'r \<Rightarrow> rng
   \<Rightarrow> (error + ('r env \<times> rng)) option" where
  "init agent target_loc mode r c term_rew step_rew g =
     (case true_divide_error (1024 * c) r of
        Some err \<Rightarrow> Some (Inl err)
      | None \<Rightarrow>
        (case (case target_loc of
                 Count n \<Rightarrow> draw_targets r c agent n [] g
               | Explicit ts \<Rightarrow> Some (Inr (ts, g))) of
           None \<Rightarrow> None
         | Some (Inl err) \<Rightarrow> Some (Inl err)
         | Some (Inr (target, g')) \<Rightarrow>
             (case box_error r c of
                Some err \<Rightarrow> Some (Inl err)
              | None \<Rightarrow>
                  if (case mode of None \<Rightarrow> True | Some m \<Rightarrow> m \<in> set render_modes)
                  then Some (Inr (\<lparr>row = r, col = c, init_agent = agent,
                                   init_target = target,
                                   term_reward = term_rew, step_reward = step_rew,
                                   render_mode = mode, np_random_seed = None,
                                   agent_location = None, target_location = None\<rparr>, g'))
                  else Some (Inl AssertionError))))"

text \<open>
  \<open>super().reset(seed=seed)\<close>: gymnasium seeds \<open>self.np_random\<close> when a seed is given
  and rejects a negative one.
\<close>

definition super_reset :: "'r env \<Rightarrow> int option \<Rightarrow> error + 'r env" where
  "super_reset e seed =
     (case seed of
        None \<Rightarrow> Inr e
      | Some s \<Rightarrow> if s < 0 then Inl SeedError else Inr (e\<lparr>np_random_seed := Some s\<rparr>))"

text \<open>
  \<open>reset\<close>, lines 76 to 94. The conditional expression evaluates its condition
  \<open>self.init_agent == None\<close> first; the draw comes from \<open>np.random\<close>, the process-wide
  generator. The \<open>options\<close> argument is never read.
\<close>

definition reset ::
  "'r env \<Rightarrow> int option \<Rightarrow> rng \<Rightarrow> ('r env \<times> rng) \<times> (error + (obs \<times> info))" where
  "reset e seed g =
     (case super_reset e seed of
        Inl err \<Rightarrow> ((e, g), Inl err)
      | Inr e1 \<Rightarrow>
          (case truth_value (eq_None (init_agent e1)) of
             Inl err \<Rightarrow> ((e1, g), Inl err)
           | Inr is_none \<Rightarrow>
               (case (if is_none
                      then (case randint (row e1) (col e1) g of
                              Inl err \<Rightarrow> Inl err
                            | Inr (p, g') \<Rightarrow> Inr (Vec p, g'))
                      else Inr (init_agent e1, g)) of
                  Inl err \<Rightarrow> ((e1, g), Inl err)
                | Inr (a, g') \<Rightarrow>
                    (let e2 = e1\<lparr>agent_location := Some a\<rparr>;
                         e3 = e2\<lparr>target_location := Some (init_target e2)\<rparr>
                     in (case get_obs e3 of
                           Inl err \<Rightarrow> ((e3, g'), Inl err)
                         | Inr observation \<Rightarrow> ((e3, g'), Inr (observation, get_info e3)))))))"

text \<open>
  The loop of \<open>step\<close>, lines 104 to 108: \<open>terminated\<close> is overwritten for each target and
  the loop is left at the first target the agent stands on.
\<close>

fun check_terminated :: "bool \<Rightarrow> pos \<Rightarrow> pos list \<Rightarrow> bool" where
  "check_terminated terminated a [] = terminated"
| "check_terminated terminated a (t # ts) =
     (let terminated' = array_equal a t
      in if terminated' then terminated' else check_terminated terminated' a ts)"

text \<open>
  \<open>step\<close>, lines 96 to 116: the dictionary lookup comes first, then the assignment of
  the clipped position, then the loop over the targets.
\<close>

definition step ::
  "'r env \<Rightarrow> int \<Rightarrow> 'r env \<times> (error + (obs \<times> 'r \<times> bool \<times> bool \<times> info))" where
  "step e action =
     (case action_to_direction action of
        None \<Rightarrow> (e, Inl KeyError)
      | Some direction \<Rightarrow>
          (case agent_location e of
             None \<Rightarrow> (e, Inl AttributeError)
           | Some a \<Rightarrow>
               (case add_arr a direction of
                  Inl err \<Rightarrow> (e, Inl err)
                | Inr s \<Rightarrow>
                    (let new = clip s (0, 0) (row e - 1, col e - 1);
                         e1 = e\<lparr>agent_location := Some (Vec new)\<rparr>
                     in (case target_location e1 of
                           None \<Rightarrow> (e1, Inl AttributeError)
                         | Some ts \<Rightarrow>
                             (let terminated = check_terminated False new ts;
                                  reward = (if terminated then term_reward e1
                                            else step_reward e1)
                              in (case get_obs e1 of
                                    Inl err \<Rightarrow> (e1, Inl err)
                                  | Inr observation \<Rightarrow>
                                      (e1, Inr (observation, reward, terminated, False,
                                                get_info e1)))))))))"

subsection \<open>Predicates of the statements\<close>

definition in_grid :: "int \<Rightarrow> int \<Rightarrow> pos \<Rightarrow> bool" where
  "in_grid r c p = (0 \<le> fst p \<and> fst p \<le> r - 1 \<and> 0 \<le> snd p \<and> snd p \<le> c - 1)"

text \<open>Grid dimensions that numpy and gymnasium accept: at least one row and one column,
  and dimensions that fit \<open>int64\<close>.\<close>

definition grid_dims :: "int \<Rightarrow> int \<Rightarrow> bool" where
  "grid_dims r c = (0 < r \<and> r < 2 ^ 63 \<and> 0 < c \<and> c < 2 ^ 63)"

text \<open>
  The condition of line 24 under which a drawn position is appended, the position of
  the \<open>k\<close>-th draw to come, and a generator that keeps producing every cell of the
  grid: without it the loop of \<open>__init__\<close> need not end.
\<close>

definition accepted :: "ndarray \<Rightarrow> pos list \<Rightarrow> pos \<Rightarrow> bool" where
  "accepted agent target new = (list_all (\<lambda>t. ne_any new t) target \<and> agent_ne_any agent new)"

definition draw_at :: "int \<Rightarrow> int \<Rightarrow> rng \<Rightarrow> nat \<Rightarrow> pos" where
  "draw_at r c g k =
     (int (raw g (cursor g + 2 * k)) mod r, int (raw g (cursor g + 2 * k + 1)) mod c)"

definition fair :: "int \<Rightarrow> int \<Rightarrow> rng \<Rightarrow> bool" where
  "fair r c g = (\<forall>p k. in_grid r c p \<longrightarrow> (\<exists>j\<ge>k. draw_at r c g j = p))"

definition valid_mode :: "string option \<Rightarrow> bool" where
  "valid_mode mode = (mode = None \<or> mode = Some ''human'' \<or> mode = Some ''rgb_array'')"

text \<open>
  The specification's words for \<open>step\<close>, to be compared with the code: the unit vector of
  each action, and clamping a coordinate into an interval.
\<close>

definition spec_unit_vector :: "int \<Rightarrow> pos" where
  "spec_unit_vector a =
     (if a = 0 then (0, 1) else if a = 1 then (- 1, 0) else if a = 2 then (0, - 1) else (1, 0))"

definition spec_clamp :: "int \<Rightarrow> int \<Rightarrow> int \<Rightarrow> int" where
  "spec_clamp lo hi x = (if x < lo then lo else if hi < x then hi else x)"

text \<open>
  A five by five environment after a successful \<open>reset\<close>, with one target at \<open>(2, 2)\<close> and
  the agent at the given position.
\<close>

definition ready_env :: "pos \<Rightarrow> int env" where
  "ready_env p =
     \<lparr>row = 5, col = 5, init_agent = NoneArr, init_target = [(2, 2)],
      term_reward = 1, step_reward = 0, render_mode = None, np_random_seed = None,
      agent_location = Some (Vec p), target_location = Some [(2, 2)]\<rparr>"

text \<open>
  The environment a construction with default rewards and no render mode returns, and
  two generators: one whose raw values count up, one that sweeps a two by two grid.
\<close>

definition constructed :: "ndarray \<Rightarrow> pos list \<Rightarrow> int \<Rightarrow> int \<Rightarrow> int env" where
  "constructed agent targets r c =
     \<lparr>row = r, col = c, init_agent = agent, init_target = targets,
      term_reward = 1, step_reward = 0, render_mode = None, np_random_seed = None,
      agent_location = None, target_location = None\<rparr>"

definition counting :: "nat \<Rightarrow> rng" where
  "counting k = \<lparr>raw = id, cursor = k\<rparr>"

definition sweep :: "nat \<Rightarrow> nat" where
  "sweep k = (if even k then k div 2 else k div 4)"

definition sweeping :: "nat \<Rightarrow> rng" where
  "sweeping k = \<lparr>raw = sweep, cursor = k\<rparr>"

section \<open>Properties of \<open>step\<close>\<close>

lemma check_terminated_set:
  "check_terminated b a ts = (if ts = [] then b else a \<in> set ts)"
  by (induction ts arbitrary: b) (auto simp: array_equal_def Let_def prod_eq_iff)

lemma check_terminated_False: "check_terminated False a ts = (a \<in> set ts)"
  by (simp add: check_terminated_set)

lemma action_to_direction_recognized:
  "action \<in> {0, 1, 2, 3} \<Longrightarrow> action_to_direction action = Some (spec_unit_vector action)"
  by (auto simp: action_to_direction_def spec_unit_vector_def)

lemma action_to_direction_unrecognized:
  "action \<notin> {0, 1, 2, 3} \<Longrightarrow> action_to_direction action = None"
  by (simp add: action_to_direction_def)

lemma wrap64_id: "- (2 ^ 63) \<le> x \<Longrightarrow> x < 2 ^ 63 \<Longrightarrow> wrap64 x = x"
  unfolding wrap64_def by simp

lemma clip_spec_clamp:
  assumes "0 < r" "0 < c"
  shows "clip (x, y) (0, 0) (r - 1, c - 1) = (spec_clamp 0 (r - 1) x, spec_clamp 0 (c - 1) y)"
  using assms by (auto simp: clip_def spec_clamp_def)

lemma clip_in_grid:
  assumes "0 < r" "0 < c"
  shows "in_grid r c (clip s (0, 0) (r - 1, c - 1))"
  using assms by (auto simp: clip_def in_grid_def)

text \<open>The position \<open>step\<close> stores, whether or not the targets exist.\<close>

lemma step_agent_location:
  assumes "action \<in> {0, 1, 2, 3}" and "agent_location e = Some (Vec p)"
  shows "agent_location (fst (step e action)) =
         Some (Vec (clip (wrap64 (fst p + fst (spec_unit_vector action)),
                          wrap64 (snd p + snd (spec_unit_vector action)))
                         (0, 0) (row e - 1, col e - 1)))"
  using assms(2)
  by (simp add: step_def action_to_direction_recognized[OF assms(1)] Let_def get_obs_def
           split: option.splits)

lemma step_ready:
  assumes "action \<in> {0, 1, 2, 3}"
    and "agent_location e = Some (Vec p)" and "target_location e = Some ts"
    and "q = clip (wrap64 (fst p + fst (spec_unit_vector action)),
                   wrap64 (snd p + snd (spec_unit_vector action)))
                  (0, 0) (row e - 1, col e - 1)"
  shows "step e action =
         (e\<lparr>agent_location := Some (Vec q)\<rparr>,
          Inr ((Vec q, ts), (if q \<in> set ts then term_reward e else step_reward e),
               q \<in> set ts, False, Map.empty))"
  using assms(2,3,4)
  by (simp add: step_def action_to_direction_recognized[OF assms(1)] Let_def get_obs_def
           get_info_def check_terminated_False)

text \<open>
  C2. After a reset, for each of the four actions, \<open>step\<close> returns: \<open>terminated\<close> is true
  exactly when the clipped new position, which is the one stored and observed, is one of
  the targets; the reward is \<open>term_reward\<close> when terminated and \<open>step_reward\<close> otherwise;
  \<open>truncated\<close> is false and the info mapping is empty.
\<close>

theorem step_terminated_iff_on_target:
  assumes "action \<in> {0, 1, 2, 3}"
    and "agent_location e = Some (Vec p)" and "target_location e = Some ts"
  shows "\<exists>q reward terminated.
           step e action =
             (e\<lparr>agent_location := Some (Vec q)\<rparr>,
              Inr ((Vec q, ts), reward, terminated, False, Map.empty))
         \<and> q = clip (wrap64 (fst p + fst (spec_unit_vector action)),
                     wrap64 (snd p + snd (spec_unit_vector action)))
                    (0, 0) (row e - 1, col e - 1)
         \<and> (terminated \<longleftrightarrow> (\<exists>t \<in> set ts. q = t))
         \<and> reward = (if terminated then term_reward e else step_reward e)"
proof -
  let ?q = "clip (wrap64 (fst p + fst (spec_unit_vector action)),
                  wrap64 (snd p + snd (spec_unit_vector action)))
                 (0, 0) (row e - 1, col e - 1)"
  have "step e action =
          (e\<lparr>agent_location := Some (Vec ?q)\<rparr>,
           Inr ((Vec ?q, ts), (if ?q \<in> set ts then term_reward e else step_reward e),
                ?q \<in> set ts, False, Map.empty))"
    by (rule step_ready[OF assms refl])
  then show ?thesis
    by (intro exI[of _ ?q] exI[of _ "if ?q \<in> set ts then term_reward e else step_reward e"]
          exI[of _ "?q \<in> set ts"]) simp
qed

theorem step_terminated_iff_on_target_witness:
  "(0::int) \<in> {0, 1, 2, 3}
   \<and> agent_location (ready_env (2, 1)) = Some (Vec (2, 1))
   \<and> target_location (ready_env (2, 1)) = Some [(2, 2)]
   \<and> snd (step (ready_env (2, 1)) 0) = Inr ((Vec (2, 2), [(2, 2)]), 1, True, False, Map.empty)"
  using step_terminated_iff_on_target[of 0 "ready_env (2, 1)" "(2, 1)" "[(2, 2)]"]
  by (auto simp: ready_env_def spec_unit_vector_def clip_def wrap64_def)

text \<open>
  C3. For each of the four actions, from a position whose coordinates are \<open>int64\<close> values
  other than the two extreme ones, on a grid with at least one row and one column,
  \<open>step\<close> stores the position plus the unit vector of the action, each coordinate clamped
  into \<open>[0, row - 1]\<close> and \<open>[0, col - 1]\<close>.
\<close>

theorem step_adds_unit_vector_and_clamps:
  assumes "action \<in> {0, 1, 2, 3}" and "agent_location e = Some (Vec (r, c))"
    and "0 < row e" and "0 < col e"
    and "- (2 ^ 63) < r" and "r < 2 ^ 63 - 1" and "- (2 ^ 63) < c" and "c < 2 ^ 63 - 1"
  shows "agent_location (fst (step e action)) =
         Some (Vec (spec_clamp 0 (row e - 1) (r + fst (spec_unit_vector action)),
                    spec_clamp 0 (col e - 1) (c + snd (spec_unit_vector action))))"
proof -
  have d: "fst (spec_unit_vector action) \<in> {- 1, 0, 1}" "snd (spec_unit_vector action) \<in> {- 1, 0, 1}"
    using assms(1) by (auto simp: spec_unit_vector_def)
  have "wrap64 (r + fst (spec_unit_vector action)) = r + fst (spec_unit_vector action)"
    using d(1) assms(5,6) by (intro wrap64_id) auto
  moreover have "wrap64 (c + snd (spec_unit_vector action)) = c + snd (spec_unit_vector action)"
    using d(2) assms(7,8) by (intro wrap64_id) auto
  ultimately show ?thesis
    using step_agent_location[OF assms(1,2)] clip_spec_clamp[OF assms(3,4)] by simp
qed

theorem step_adds_unit_vector_and_clamps_witness:
  "(0::int) \<in> {0, 1, 2, 3}
   \<and> agent_location (ready_env (0, 0)) = Some (Vec (0, 0))
   \<and> 0 < row (ready_env (0, 0)) \<and> 0 < col (ready_env (0, 0))
   \<and> - (2 ^ 63) < (0::int) \<and> (0::int) < 2 ^ 63 - 1
   \<and> agent_location (fst (step (ready_env (0, 0)) 0)) = Some (Vec (0, 1))"
  using step_adds_unit_vector_and_clamps[of 0 "ready_env (0, 0)" 0 0]
  by (simp add: ready_env_def spec_unit_vector_def spec_clamp_def)

text \<open>
  C5. On a grid with at least one row and one column, for each of the four actions and
  whatever the position of the agent before, the position after \<open>step\<close> lies in
  \<open>[0, row - 1] \<times> [0, col - 1]\<close>, and \<open>step\<close> leaves the dimensions as they are: the
  bound holds again after the next call.
\<close>

theorem step_stays_in_grid:
  assumes "0 < row e" and "0 < col e"
    and "action \<in> {0, 1, 2, 3}" and "agent_location e = Some (Vec p)"
  shows "\<exists>q. agent_location (fst (step e action)) = Some (Vec q)
             \<and> in_grid (row e) (col e) q
             \<and> row (fst (step e action)) = row e \<and> col (fst (step e action)) = col e"
proof -
  have "row (fst (step e action)) = row e \<and> col (fst (step e action)) = col e"
    using assms(4)
    by (simp add: step_def action_to_direction_recognized[OF assms(3)] Let_def get_obs_def
             split: option.splits)
  then show ?thesis
    using step_agent_location[OF assms(3,4)] clip_in_grid[OF assms(1,2)] by simp
qed

theorem step_stays_in_grid_witness:
  "0 < row (ready_env (4, 4)) \<and> 0 < col (ready_env (4, 4)) \<and> (3::int) \<in> {0, 1, 2, 3}
   \<and> agent_location (ready_env (4, 4)) = Some (Vec (4, 4))
   \<and> agent_location (fst (step (ready_env (4, 4)) 3)) = Some (Vec (4, 4))
   \<and> in_grid 5 5 (4, 4)"
  using step_stays_in_grid[of "ready_env (4, 4)" 3 "(4, 4)"]
  by (simp add: ready_env_def in_grid_def step_def action_to_direction_def Let_def
           get_obs_def clip_def wrap64_def array_equal_def)

text \<open>
  C9. For every action other than 0, 1, 2 and 3, \<open>step\<close> raises \<open>KeyError\<close>, in every
  state of the environment: no result is returned and no other action is taken instead.
\<close>

theorem step_unrecognized_raises:
  "action \<notin> {0, 1, 2, 3} \<Longrightarrow> snd (step e action) = Inl KeyError"
  by (simp add: step_def action_to_direction_unrecognized)

theorem step_unrecognized_raises_witness:
  "(4::int) \<notin> {0, 1, 2, 3} \<and> snd (step (ready_env (0, 0)) 4) = Inl KeyError"
  using step_unrecognized_raises[of 4 "ready_env (0, 0)"] by simp

text \<open>
  C10. For every action other than 0, 1, 2 and 3, the environment after the failed \<open>step\<close>
  is the environment before it: the agent position, the targets and every other
  attribute are unchanged.
\<close>

theorem step_unrecognized_keeps_state:
  "action \<notin> {0, 1, 2, 3} \<Longrightarrow>
   fst (step e action) = e
   \<and> agent_location (fst (step e action)) = agent_location e
   \<and> target_location (fst (step e action)) = target_location e"
  by (simp add: step_def action_to_direction_unrecognized)

theorem step_unrecognized_keeps_state_witness:
  "(- 1::int) \<notin> {0, 1, 2, 3} \<and> fst (step (ready_env (0, 0)) (- 1)) = ready_env (0, 0)"
  using step_unrecognized_keeps_state[of "- 1" "ready_env (0, 0)"] by simp


section \<open>The rejection sampling of \<open>__init__\<close>\<close>

lemma accepted_iff: "accepted agent target new \<longleftrightarrow> new \<notin> set target \<and> agent \<noteq> Vec new"
  by (cases agent) (auto simp: accepted_def list_all_iff ne_any_def prod_eq_iff)

lemma grid_dims_pos: "grid_dims r c \<Longrightarrow> 0 < r" "grid_dims r c \<Longrightarrow> 0 < c"
  by (simp_all add: grid_dims_def)

lemma randint_pos:
  "grid_dims r c \<Longrightarrow> randint r c g = Inr (draw_at r c g 0, g\<lparr>cursor := cursor g + 2\<rparr>)"
  by (simp add: randint_def draw_at_def grid_dims_def)

lemma draw_at_advance: "draw_at r c (g\<lparr>cursor := cursor g + 2\<rparr>) j = draw_at r c g (Suc j)"
  by (simp add: draw_at_def)

lemma draw_at_in_grid: "0 < r \<Longrightarrow> 0 < c \<Longrightarrow> in_grid r c (draw_at r c g j)"
  by (simp add: draw_at_def in_grid_def)

lemma fair_advance:
  assumes "fair r c g" shows "fair r c (g\<lparr>cursor := cursor g + 2\<rparr>)"
  unfolding fair_def
proof (intro allI impI)
  fix p k assume "in_grid r c p"
  then obtain j where j: "j \<ge> Suc k" "draw_at r c g j = p"
    using assms unfolding fair_def by blast
  then obtain j' where "j = Suc j'" by (cases j) auto
  with j show "\<exists>j\<ge>k. draw_at r c (g\<lparr>cursor := cursor g + 2\<rparr>) j = p"
    using draw_at_advance[of r c g j'] by (intro exI[of _ j']) simp
qed

lemma draw_targets_done:
  "\<not> int (length target) < n \<Longrightarrow> draw_targets r c agent n target g = Some (Inr (target, g))"
  by (subst draw_targets.simps) simp

lemma draw_targets_accept:
  assumes "grid_dims r c" "int (length target) < n" "accepted agent target (draw_at r c g 0)"
  shows "draw_targets r c agent n target g =
         draw_targets r c agent n (target @ [draw_at r c g 0]) (g\<lparr>cursor := cursor g + 2\<rparr>)"
  using assms
  by (subst draw_targets.simps) (simp add: randint_pos accepted_def)

lemma draw_targets_reject:
  assumes "grid_dims r c" "int (length target) < n" "\<not> accepted agent target (draw_at r c g 0)"
  shows "draw_targets r c agent n target g =
         draw_targets r c agent n target (g\<lparr>cursor := cursor g + 2\<rparr>)"
  using assms
  by (subst draw_targets.simps) (auto simp add: randint_pos accepted_def)

lemma grid_set: "{p. in_grid r c p} = {0..r - 1} \<times> {0..c - 1}"
  by (auto simp: in_grid_def)

lemma card_grid: "0 < r \<Longrightarrow> 0 < c \<Longrightarrow> card {p. in_grid r c p} = nat (r * c)"
  by (simp add: grid_set nat_mult_distrib)

lemma free_cell:
  assumes "0 < r" "0 < c" "int (length target) < n" "n \<le> r * c - 1"
  shows "\<exists>p. in_grid r c p \<and> accepted agent target p"
proof -
  let ?B = "set target \<union> {a. agent = Vec a}"
  have "{a. agent = Vec a} \<subseteq> (case agent of NoneArr \<Rightarrow> {} | Vec a \<Rightarrow> {a})"
    by (auto split: ndarray.splits)
  have fa: "finite {a. agent = Vec a}" "card {a. agent = Vec a} \<le> 1"
    by (cases agent; simp)+
  have "card ?B \<le> card (set target) + card {a. agent = Vec a}"
    by (rule card_Un_le)
  also have "\<dots> \<le> length target + 1"
    using fa(2) card_length[of target] by linarith
  finally have "int (card ?B) < r * c" using assms(3,4) by linarith
  then have "card ?B < card {p. in_grid r c p}"
    using assms(1,2) by (simp add: card_grid)
  moreover have "finite ?B" using fa(1) by simp
  ultimately have "\<not> {p. in_grid r c p} \<subseteq> ?B"
    using card_mono[of ?B "{p. in_grid r c p}"] by auto
  then show ?thesis by (auto simp: accepted_iff)
qed

lemma draw_targets_returns:
  assumes dims: "grid_dims r c" and bound: "n \<le> r * c - 1"
  shows "fair r c g \<Longrightarrow> int (length target) \<le> n \<Longrightarrow> distinct target \<Longrightarrow>
         (\<forall>a. agent = Vec a \<longrightarrow> a \<notin> set target) \<Longrightarrow> (\<forall>p\<in>set target. in_grid r c p) \<Longrightarrow>
         \<exists>ts g'. draw_targets r c agent n target g = Some (Inr (ts, g'))
           \<and> int (length ts) = n \<and> distinct ts
           \<and> (\<forall>a. agent = Vec a \<longrightarrow> a \<notin> set ts) \<and> (\<forall>p\<in>set ts. in_grid r c p)"
proof (induction "nat (n - int (length target))" arbitrary: target g)
  case 0
  then have "\<not> int (length target) < n" by simp
  from draw_targets_done[OF this] 0 show ?case by auto
next
  case (Suc m)
  then have less: "int (length target) < n" by linarith
  obtain p where p: "in_grid r c p" "accepted agent target p"
    using free_cell[OF grid_dims_pos[OF dims] less bound] by blast
  obtain j where j: "draw_at r c g j = p"
    using Suc.prems(1) p(1) unfolding fair_def by blast
  have hit: "accepted agent target (draw_at r c g j)" using j p(2) by simp
  have accept: "\<exists>ts g'. draw_targets r c agent n target g = Some (Inr (ts, g'))
           \<and> int (length ts) = n \<and> distinct ts
           \<and> (\<forall>a. agent = Vec a \<longrightarrow> a \<notin> set ts) \<and> (\<forall>p\<in>set ts. in_grid r c p)"
    if f: "fair r c g" and acc: "accepted agent target (draw_at r c g 0)" for g
  proof -
    let ?new = "draw_at r c g 0"
    let ?g = "g\<lparr>cursor := cursor g + 2\<rparr>"
    have "m = nat (n - int (length (target @ [?new])))" using Suc.hyps(2) by simp
    moreover have "fair r c ?g" by (rule fair_advance[OF f])
    moreover have "int (length (target @ [?new])) \<le> n" using less by simp
    moreover have "distinct (target @ [?new])"
      using Suc.prems(3) acc by (simp add: accepted_iff)
    moreover have "\<forall>a. agent = Vec a \<longrightarrow> a \<notin> set (target @ [?new])"
      using Suc.prems(4) acc by (auto simp: accepted_iff)
    moreover have "\<forall>p\<in>set (target @ [?new]). in_grid r c p"
      using Suc.prems(5) draw_at_in_grid[OF grid_dims_pos[OF dims]] by auto
    ultimately have "\<exists>ts g'. draw_targets r c agent n (target @ [?new]) ?g = Some (Inr (ts, g'))
           \<and> int (length ts) = n \<and> distinct ts
           \<and> (\<forall>a. agent = Vec a \<longrightarrow> a \<notin> set ts) \<and> (\<forall>p\<in>set ts. in_grid r c p)"
      by (rule Suc.hyps(1))
    then show ?thesis
      by (simp only: draw_targets_accept[OF dims less acc])
  qed
  from hit \<open>fair r c g\<close> show ?case
  proof (induction j arbitrary: g)
    case 0
    then show ?case by (intro accept)
  next
    case (Suc j)
    show ?case
    proof (cases "accepted agent target (draw_at r c g 0)")
      case True
      then show ?thesis by (intro accept Suc.prems(2))
    next
      case False
      have "accepted agent target (draw_at r c (g\<lparr>cursor := cursor g + 2\<rparr>) j)"
        using Suc.prems(1) by (simp only: draw_at_advance)
      from Suc.IH[OF this fair_advance[OF Suc.prems(2)]]
      show ?thesis by (simp only: draw_targets_reject[OF dims less False])
    qed
  qed
qed

text \<open>
  The fairness assumption cannot be dropped. The counting generator on a two by two
  grid draws \<open>(0, 1)\<close> for ever, and the loop asked for two targets never ends.
\<close>

lemma draw_targets_stuck:
  assumes ret: "draw_targets r c agent n target g = Some y"
  shows "\<not> (r = 2 \<and> c = 2 \<and> agent = NoneArr \<and> n = 2 \<and> raw g = id \<and> even (cursor g)
            \<and> (target = [] \<or> target = [(0, 1)]))"
proof -
  let ?P = "\<lambda>r c agent n target g (y :: error + (pos list \<times> rng)).
              \<not> (r = 2 \<and> c = 2 \<and> agent = NoneArr \<and> n = 2 \<and> raw g = id \<and> even (cursor g)
                 \<and> (target = [] \<or> target = [(0, 1)]))"
  have "?P r c agent n target g y"
  proof (rule draw_targets.raw_induct[where P = ?P, OF _ ret])
    fix f :: "int \<Rightarrow> int \<Rightarrow> ndarray \<Rightarrow> int \<Rightarrow> pos list \<Rightarrow> rng \<Rightarrow> (error + (pos list \<times> rng)) option"
    fix r c agent n target g y
    assume IH: "\<And>r c agent n target g y.
                  f r c agent n target g = Some y \<Longrightarrow> ?P r c agent n target g y"
    assume body: "(if int (length target) < n
      then case randint r c g of Inl err \<Rightarrow> Some (Inl err)
           | Inr (new, g') \<Rightarrow>
               if list_all (ne_any new) target \<and> agent_ne_any agent new
               then f r c agent n (target @ [new]) g'
               else f r c agent n target g'
      else Some (Inr (target, g))) = Some y"
    show "?P r c agent n target g y"
    proof
      assume inv: "r = 2 \<and> c = 2 \<and> agent = NoneArr \<and> n = 2 \<and> raw g = id \<and> even (cursor g)
            \<and> (target = [] \<or> target = [(0, 1)])"
      then have r: "r = 2" and c: "c = 2" and a: "agent = NoneArr" and n: "n = 2"
        and rw: "raw g = id" and ev: "even (cursor g)" by simp_all
      let ?g = "g\<lparr>cursor := cursor g + 2\<rparr>"
      have new: "randint 2 2 g = Inr ((0, 1), ?g)"
        using rw ev by (auto simp: randint_def elim!: evenE)
      have g': "raw ?g = id" "even (cursor ?g)" using rw ev by simp_all
      note body' = body[unfolded r c a n new]
      from inv have "target = [] \<or> target = [(0, 1)]" by simp
      then have "f 2 2 NoneArr 2 [(0, 1)] ?g = Some y"
      proof
        assume "target = []"
        with body' show ?thesis by simp
      next
        assume "target = [(0, 1)]"
        with body' show ?thesis by (simp add: ne_any_def)
      qed
      from IH[OF this] g' show False by simp
    qed
  qed
  then show ?thesis .
qed

lemma draw_targets_never_returns:
  "draw_targets 2 2 NoneArr 2 [] (counting 0) = None"
proof (cases "draw_targets 2 2 NoneArr 2 [] (counting 0)")
  case (Some y)
  from draw_targets_stuck[OF this] show ?thesis by (simp add: counting_def)
qed simp

lemma init_never_returns:
  "init NoneArr (Count 2) None 2 2 (1::int) 0 (counting 0) = None"
  by (simp add: init_def true_divide_error_def float_overflow_bound_def
        draw_targets_never_returns)

section \<open>Properties of construction\<close>

lemma valid_mode_case:
  "valid_mode mode \<Longrightarrow> (case mode of None \<Rightarrow> True | Some m \<Rightarrow> m \<in> set render_modes)"
  by (auto simp: valid_mode_def render_modes_def)

lemma sweep_draw: "draw_at 2 2 (sweeping 0) j = (int j mod 2, int (j div 2) mod 2)"
proof -
  have "(2 * j + 1) div 4 = j div 2" by presburger
  then show ?thesis by (simp add: draw_at_def sweeping_def sweep_def)
qed

lemma fair_sweeping: "fair 2 2 (sweeping 0)"
  unfolding fair_def
proof (intro allI impI)
  fix p :: pos and k
  assume "in_grid 2 2 p"
  then have ab: "fst p \<in> {0, 1}" "snd p \<in> {0, 1}" by (auto simp: in_grid_def)
  let ?j = "4 * k + nat (fst p) + 2 * nat (snd p)"
  have "int ?j mod 2 = fst p" "int (?j div 2) mod 2 = snd p"
    using ab by (auto; presburger)+
  then have "draw_at 2 2 (sweeping 0) ?j = p"
    by (simp only: sweep_draw prod_eq_iff fst_conv snd_conv)
  then show "\<exists>j\<ge>k. draw_at 2 2 (sweeping 0) j = p"
    by (intro exI[of _ ?j]) simp
qed

text \<open>On the dimensions numpy and gymnasium accept, lines 14 and 35 to 40 raise nothing.\<close>

lemma true_divide_ok:
  assumes "grid_dims r c"
  shows "true_divide_error (1024 * c) r = None"
proof -
  have r: "1 \<le> r" and c: "0 < c" "c \<le> 2 ^ 63" using assms by (simp_all add: grid_dims_def)
  have b: "(2::int) ^ 73 < float_overflow_bound" by (simp add: float_overflow_bound_def)
  have small: "1024 * c \<le> (2::int) ^ 73" using c(2) by simp
  have "float_overflow_bound * 1 \<le> float_overflow_bound * r"
    using b r by (intro mult_left_mono) auto
  with small b have "1024 * c < float_overflow_bound * r" by linarith
  moreover have "\<bar>1024 * c\<bar> = 1024 * c" and "\<bar>r\<bar> = r" using r c(1) by simp_all
  ultimately have "\<not> float_overflow_bound * \<bar>r\<bar> \<le> \<bar>1024 * c\<bar>" by (simp only: not_le)
  then show ?thesis using r by (simp only: true_divide_error_def) simp
qed

lemma box_ok: "grid_dims r c \<Longrightarrow> box_error r c = None"
  by (simp add: box_error_def grid_dims_def)

text \<open>Outside of them construction raises: a column count beyond the doubles, beyond
  \<open>int64\<close>, and of zero.\<close>

lemma init_overflow:
  "init (Vec (0, 0)) (Explicit [(2, 2)]) None 5 (10 ^ 400) (1::int) 0 (counting 0)
     = Some (Inl OverflowError)"
  by (simp add: init_def true_divide_error_def float_overflow_bound_def)

lemma init_beyond_int64:
  "init (Vec (0, 0)) (Explicit [(2, 2)]) None 5 (2 ^ 63 + 1) (1::int) 0 (counting 0)
     = Some (Inl ValueError)"
  by (simp add: init_def true_divide_error_def float_overflow_bound_def box_error_def)

lemma init_no_column:
  "init (Vec (0, 0)) (Explicit [(2, 2)]) None 5 0 (1::int) 0 (counting 0)
     = Some (Inl ValueError)"
  by (simp add: init_def true_divide_error_def float_overflow_bound_def box_error_def)

text \<open>
  C7, as the code has it. \<open>__init__\<close> compares no position with the grid: with an explicit
  list of targets, at least one row and one column, fewer than \<open>2 ^ 63\<close> of each, and a
  valid render mode,
  construction succeeds whatever the agent position and the target positions are, inside
  the grid or outside, stores them as given and draws nothing from the generator.
\<close>

theorem init_keeps_positions_unvalidated:
  assumes "grid_dims r c" and "valid_mode mode"
  shows "init agent (Explicit ts) mode r c term_rew step_rew g =
         Some (Inr (\<lparr>row = r, col = c, init_agent = agent, init_target = ts,
                     term_reward = term_rew, step_reward = step_rew,
                     render_mode = mode, np_random_seed = None,
                     agent_location = None, target_location = None\<rparr>, g))"
  using true_divide_ok[OF assms(1)] box_ok[OF assms(1)] valid_mode_case[OF assms(2)]
  by (simp add: init_def)

theorem init_keeps_positions_unvalidated_witness:
  "grid_dims 5 5 \<and> valid_mode None
   \<and> init (Vec (1, 1)) (Explicit [(2, 2), (9, 9)]) None 5 5 (1::int) 0 (counting 0)
       = Some (Inr (constructed (Vec (1, 1)) [(2, 2), (9, 9)] 5 5, counting 0))"
  using init_keeps_positions_unvalidated
          [of 5 5 None "Vec (1, 1)" "[(2, 2), (9, 9)]" "1::int" 0 "counting 0"]
  by (simp add: valid_mode_def constructed_def grid_dims_def)

text \<open>
  C7 as stated fails: on a five by five grid, construction with the agent at \<open>(7, 7)\<close> and
  a target at \<open>(9, 9)\<close>, both outside the grid, returns an environment.
\<close>

theorem init_out_of_grid_accepted:
  "init (Vec (7, 7)) (Explicit [(9, 9)]) None 5 5 (1::int) 0 (counting 0)
     = Some (Inr (constructed (Vec (7, 7)) [(9, 9)] 5 5, counting 0))
   \<and> \<not> in_grid 5 5 (7, 7) \<and> \<not> in_grid 5 5 (9, 9)"
  by (simp add: init_def true_divide_error_def float_overflow_bound_def box_error_def constructed_def in_grid_def)

text \<open>
  C8. The code at the input \<open>GridWorldEnv(row=2, col=2)\<close>, no agent position and one random
  target, followed by \<open>reset()\<close>: line 24 compares the drawn target with the array holding
  \<open>None\<close>, which differs from every position, and \<open>reset\<close> draws the agent afterwards
  without looking at the targets. The counting generator gives the target \<open>(0, 1)\<close> and
  then the agent \<open>(0, 1)\<close>: the target generated at random is the initial position of the
  agent.
\<close>

theorem init_random_target_under_agent:
  "init NoneArr (Count 1) None 2 2 (1::int) 0 (counting 0)
     = Some (Inr (constructed NoneArr [(0, 1)] 2 2, counting 2))
   \<and> snd (reset (constructed NoneArr [(0, 1)] 2 2) None (counting 2))
     = Inr ((Vec (0, 1), [(0, 1)]), Map.empty)"
  by (simp add: init_def true_divide_error_def float_overflow_bound_def box_error_def draw_targets.simps randint_def
        counting_def constructed_def reset_def super_reset_def get_obs_def get_info_def)

text \<open>
  What the loop does guarantee. With at least one row and one column, fewer than
  \<open>2 ^ 63\<close> of each, with a count \<open>n\<close> between 0 and \<open>row * col - 1\<close>, a valid render mode and a generator that keeps
  producing every cell, construction returns, and the stored targets are exactly \<open>n\<close>
  positions of the grid, pairwise distinct, none of them the agent position given to
  the constructor when one was given.
\<close>

lemma init_random_targets:
  assumes "grid_dims r c" and "0 \<le> n" and "n \<le> r * c - 1"
    and "fair r c g" and "valid_mode mode"
  shows "\<exists>e g'. init agent (Count n) mode r c term_rew step_rew g = Some (Inr (e, g'))
           \<and> init_agent e = agent
           \<and> int (length (init_target e)) = n \<and> distinct (init_target e)
           \<and> (\<forall>p \<in> set (init_target e). in_grid r c p)
           \<and> (\<forall>a. agent = Vec a \<longrightarrow> a \<notin> set (init_target e))"
proof -
  obtain ts g' where d: "draw_targets r c agent n [] g = Some (Inr (ts, g'))"
    "int (length ts) = n" "distinct ts" "\<forall>a. agent = Vec a \<longrightarrow> a \<notin> set ts"
    "\<forall>p\<in>set ts. in_grid r c p"
    using draw_targets_returns[OF assms(1,3,4), of "[]" agent] assms(2) by auto
  show ?thesis
    using true_divide_ok[OF assms(1)] box_ok[OF assms(1)] d valid_mode_case[OF assms(5)]
    by (simp add: init_def)
qed

lemma init_random_targets_example:
  "init (Vec (0, 0)) (Count 3) None 2 2 (1::int) 0 (sweeping 0)
     = Some (Inr (constructed (Vec (0, 0)) [(1, 0), (0, 1), (1, 1)] 2 2, sweeping 8))"
  by (simp add: init_def true_divide_error_def float_overflow_bound_def box_error_def draw_targets.simps randint_def
        sweeping_def sweep_def ne_any_def constructed_def)

section \<open>Properties of \<open>reset\<close>\<close>

text \<open>With an agent position given to the constructor, \<open>reset\<close> raises for every valid
  seed; with none, it draws the agent from the process-wide generator.\<close>

lemma reset_explicit_raises:
  assumes "init_agent e = Vec p" and "seed = None \<or> (\<exists>s\<ge>0. seed = Some s)"
  shows "snd (reset e seed g) = Inl ValueError"
  using assms by (auto simp: reset_def super_reset_def)

lemma reset_random:
  assumes "init_agent e = NoneArr" and "grid_dims (row e) (col e)"
  shows "reset e None g =
         ((e\<lparr>agent_location := Some (Vec (draw_at (row e) (col e) g 0)),
             target_location := Some (init_target e)\<rparr>, g\<lparr>cursor := cursor g + 2\<rparr>),
          Inr ((Vec (draw_at (row e) (col e) g 0), init_target e), Map.empty))"
  using assms by (simp add: reset_def super_reset_def randint_pos get_obs_def get_info_def)

text \<open>The seed has no influence on what \<open>reset\<close> returns.\<close>

lemma reset_ignores_seed:
  assumes "0 \<le> s" and "0 \<le> s'"
  shows "snd (reset e (Some s) g) = snd (reset e (Some s') g)"
  using assms
  by (cases "init_agent e")
     (auto simp: reset_def super_reset_def get_obs_def get_info_def randint_def
           split: sum.splits)

text \<open>A successful \<open>reset\<close> leaves the agent inside the grid.\<close>

lemma reset_agent_in_grid:
  assumes "reset e seed g = ((e', g'), Inr (ob, information))"
  shows "\<exists>p. agent_location e' = Some (Vec p) \<and> in_grid (row e) (col e) p
             \<and> row e' = row e \<and> col e' = col e"
  using assms
  by (cases "init_agent e")
     (auto simp: reset_def super_reset_def get_obs_def randint_def Let_def in_grid_def
           split: sum.splits option.splits if_splits)

text \<open>
  C1. The code at the input \<open>GridWorldEnv(agent_location=[0, 0], target_location=[[2, 2]])\<close>
  followed by \<open>reset()\<close>: construction returns the environment, and \<open>reset\<close> raises
  \<open>ValueError\<close> at the condition \<open>self.init_agent == None\<close>, leaving the environment
  without an agent position.
\<close>

theorem reset_explicit_agent_raises:
  "init (Vec (0, 0)) (Explicit [(2, 2)]) None 5 5 (1::int) 0 (counting 0)
     = Some (Inr (constructed (Vec (0, 0)) [(2, 2)] 5 5, counting 0))
   \<and> reset (constructed (Vec (0, 0)) [(2, 2)] 5 5) None (counting 0)
     = ((constructed (Vec (0, 0)) [(2, 2)] 5 5, counting 0), Inl ValueError)"
  by (simp add: init_def true_divide_error_def float_overflow_bound_def box_error_def reset_def super_reset_def
        constructed_def)

text \<open>
  C4. The code at the input \<open>GridWorldEnv(target_location=[[2, 2]])\<close>, reset twice with
  \<open>seed=0\<close>: the first call returns the agent at \<open>(0, 1)\<close> and leaves the process-wide
  generator two values further, where the second call, with the same seed on the same
  configuration, returns the agent at \<open>(2, 3)\<close>.
\<close>

theorem reset_same_seed_differs:
  "snd (reset (constructed NoneArr [(2, 2)] 5 5) (Some 0) (counting 0))
     = Inr ((Vec (0, 1), [(2, 2)]), Map.empty)
   \<and> snd (fst (reset (constructed NoneArr [(2, 2)] 5 5) (Some 0) (counting 0))) = counting 2
   \<and> snd (reset (constructed NoneArr [(2, 2)] 5 5) (Some 0) (counting 2))
     = Inr ((Vec (2, 3), [(2, 2)]), Map.empty)"
  by (simp add: reset_def super_reset_def randint_def counting_def constructed_def
        get_obs_def get_info_def)

text \<open>
  C6, as the code has it. Every \<open>reset\<close> that returns sets the targets to the list stored
  by the constructor, \<open>init_target\<close>, for a random count as for an explicit list, returns
  that list in the observation, leaves it stored, and takes from the generator only the
  two values of the agent position.
\<close>

theorem reset_reuses_init_target:
  assumes "reset e seed g = ((e', g'), Inr (ob, information))"
  shows "target_location e' = Some (init_target e) \<and> snd ob = init_target e
         \<and> init_target e' = init_target e \<and> g' = g\<lparr>cursor := cursor g + 2\<rparr>"
  using assms
  by (cases "init_agent e")
     (auto simp: reset_def super_reset_def get_obs_def randint_def Let_def
           split: sum.splits option.splits if_splits)

theorem reset_reuses_init_target_witness:
  "reset (constructed NoneArr [(0, 1)] 3 3) None (counting 2)
     = (((constructed NoneArr [(0, 1)] 3 3)
           \<lparr>agent_location := Some (Vec (2, 0)), target_location := Some [(0, 1)]\<rparr>, counting 4),
        Inr ((Vec (2, 0), [(0, 1)]), Map.empty))
   \<and> init_target (constructed NoneArr [(0, 1)] 3 3) = [(0, 1)]
   \<and> counting 4 = (counting 2)\<lparr>cursor := cursor (counting 2) + 2\<rparr>"
proof -
  have r: "reset (constructed NoneArr [(0, 1)] 3 3) None (counting 2)
     = (((constructed NoneArr [(0, 1)] 3 3)
           \<lparr>agent_location := Some (Vec (2, 0)), target_location := Some [(0, 1)]\<rparr>, counting 4),
        Inr ((Vec (2, 0), [(0, 1)]), Map.empty))"
    by (simp add: reset_def super_reset_def randint_def counting_def constructed_def
          get_obs_def get_info_def)
  from reset_reuses_init_target[OF r] r show ?thesis by simp
qed

text \<open>
  C6 as stated fails: on a three by three grid with one random target, construction
  draws \<open>(0, 1)\<close>; the following \<open>reset\<close> returns that same target, although a fresh draw
  from the generator would give \<open>(2, 0)\<close> before the agent is drawn and \<open>(1, 2)\<close> after.
\<close>

theorem reset_draws_no_target:
  "init NoneArr (Count 1) None 3 3 (1::int) 0 (counting 0)
     = Some (Inr (constructed NoneArr [(0, 1)] 3 3, counting 2))
   \<and> snd (reset (constructed NoneArr [(0, 1)] 3 3) None (counting 2))
     = Inr ((Vec (2, 0), [(0, 1)]), Map.empty)
   \<and> snd (fst (reset (constructed NoneArr [(0, 1)] 3 3) None (counting 2))) = counting 4
   \<and> draw_targets 3 3 NoneArr 1 [] (counting 2) = Some (Inr ([(2, 0)], counting 4))
   \<and> draw_targets 3 3 NoneArr 1 [] (counting 4) = Some (Inr ([(1, 2)], counting 6))"
  by (simp add: init_def true_divide_error_def float_overflow_bound_def box_error_def draw_targets.simps randint_def
        counting_def constructed_def
        reset_def super_reset_def get_obs_def get_info_def)

end
